theory Spec2Isabelle
  imports Main "HOL-Library.FSet"
begin

section \<open>The cross-page selection model of \<open>src/App.tsx\<close>\<close>

text \<open>
  The component \<open>App\<close> keeps its whole state in React state hooks. An event handler
  closes over the state of the last render, computes new values and hands them to the
  setters; React applies all setters of one handler together, renders, and then runs the
  effects whose dependencies changed. The model is explicit state passing: every handler
  is a function from the state it closes over to the state after its setters, and the two
  effects are functions that run after it.

  A JavaScript \<open>Set<number>\<close> is a finite set (\<open>int fset\<close>): the program only calls
  \<open>add\<close>, \<open>delete\<close>, \<open>has\<close> and \<open>size\<close> on its sets and never iterates them, so
  insertion order is not observable. A JavaScript \<open>number\<close> that holds a count is an
  integer or \<open>NaN\<close> (what \<open>parseInt\<close> returns).
\<close>

subsection \<open>Data\<close>

text \<open>\<open>interface ArtworkData\<close>; the field \<open>id\<close> is \<open>id_num\<close> here (\<open>id\<close> is HOL's identity).\<close>

record ArtworkData =
  id_num :: int
  title :: string
  artist_display :: string

text \<open>One element of \<open>data.data\<close> of the API's JSON body: title and artist may be missing.\<close>

record raw_artwork =
  raw_id :: int
  raw_title :: "string option"
  raw_artist_display :: "string option"

text \<open>The JSON body, as far as \<open>loadArtworks\<close> reads it: \<open>data.data\<close> and
  \<open>data.pagination.total\<close> (\<open>None\<close> when \<open>pagination\<close> or \<open>total\<close> is missing).\<close>

record api_response =
  resp_data :: "raw_artwork list"
  pagination_total :: "int option"

datatype number = NaN | Num int

record app_state =
  artworks :: "ArtworkData list"
  isLoading :: bool
  currentPage :: int
  selectedCount :: number
  selectedItems :: "int fset"
  unselectedItems :: "int fset"
  totalItems :: int

text \<open>The initial values of the \<open>useState\<close> calls (lines 23 to 29). On mount the effect of
  lines 68 to 70 starts \<open>loadArtworks(1)\<close>, which sets \<open>isLoading\<close> and nothing else until
  its response arrives; no handler reads \<open>isLoading\<close>.\<close>

definition initial :: app_state where
  "initial = \<lparr>artworks = [], isLoading = False, currentPage = 1, selectedCount = Num 0,
     selectedItems = {||}, unselectedItems = {||}, totalItems = 1000\<rparr>"

subsection \<open>\<open>loadArtworks\<close> (lines 38 to 66)\<close>

text \<open>JavaScript's \<open>x || d\<close> on an optional string: \<open>undefined\<close>, \<open>null\<close> and the empty
  string are falsy.\<close>

definition or_default :: "string option \<Rightarrow> string \<Rightarrow> string" where
  "or_default x d = (case x of None \<Rightarrow> d | Some v \<Rightarrow> if v = [] then d else v)"

definition processArtwork :: "raw_artwork \<Rightarrow> ArtworkData" where
  "processArtwork artwork =
     \<lparr>id_num = raw_id artwork,
      title = or_default (raw_title artwork) ''Untitled'',
      artist_display = or_default (raw_artist_display artwork) ''Unknown Artist''\<rparr>"

text \<open>
  \<open>loadArtworks\<close> is asynchronous. Up to its \<open>await\<close> it sets \<open>isLoading\<close>; the rest runs
  as a later event of its own, when the response arrives: with a JSON body
  (\<open>loadArtworks_resolved\<close>) or in the \<open>catch\<close> branch (\<open>loadArtworks_failed\<close>). The
  continuation reads neither \<open>pageNumber\<close> nor \<open>currentPage\<close>. The cache
  \<open>itemsCache\<close> is written here and read nowhere; it is left out of the state.
\<close>

definition loadArtworks_begin :: "app_state \<Rightarrow> app_state" where
  "loadArtworks_begin s = s\<lparr>isLoading := True\<rparr>"

definition loadArtworks_resolved :: "api_response \<Rightarrow> app_state \<Rightarrow> app_state" where
  "loadArtworks_resolved res s =
     (let processedArtworks = map processArtwork (resp_data res)
      in s\<lparr>artworks := processedArtworks,
            totalItems := (case pagination_total res of
                             None \<Rightarrow> totalItems s
                           | Some t \<Rightarrow> if t \<noteq> 0 then t else totalItems s),
            isLoading := False\<rparr>)"

definition loadArtworks_failed :: "app_state \<Rightarrow> app_state" where
  "loadArtworks_failed s = s\<lparr>isLoading := False\<rparr>"

subsection \<open>The auto-select effect (lines 73 to 92)\<close>

text \<open>The \<open>for\<close> loop of the effect, over the remaining \<open>availableIds\<close>, with the loop's
  two variables \<open>newSelected\<close> and \<open>currentlySelected\<close>; it returns \<open>newSelected\<close>.\<close>

fun autoSelect_loop :: "int \<Rightarrow> int fset \<Rightarrow> int list \<Rightarrow> int fset \<Rightarrow> int \<Rightarrow> int fset" where
  "autoSelect_loop count unselected [] newSelected currentlySelected = newSelected"
| "autoSelect_loop count unselected (i # availableIds) newSelected currentlySelected =
     (if i |\<notin>| newSelected \<and> i |\<notin>| unselected then
        (if currentlySelected + 1 \<ge> count then finsert i newSelected
         else autoSelect_loop count unselected availableIds (finsert i newSelected)
                (currentlySelected + 1))
      else autoSelect_loop count unselected availableIds newSelected currentlySelected)"

text \<open>The effect's body. \<open>!selectedCount\<close> holds for \<open>NaN\<close> and for \<open>0\<close>.\<close>

definition autoSelect :: "app_state \<Rightarrow> app_state" where
  "autoSelect s =
     (case selectedCount s of
        NaN \<Rightarrow> s
      | Num count \<Rightarrow>
          if count = 0 then s
          else let currentlySelected = int (fcard (selectedItems s)) in
            if currentlySelected \<ge> count then s
            else s\<lparr>selectedItems :=
                     autoSelect_loop count (unselectedItems s) (map id_num (artworks s))
                       (selectedItems s) currentlySelected\<rparr>)"

subsection \<open>Event handlers (lines 94 to 163 and 176 to 193)\<close>

text \<open>\<open>event.page\<close> may be undefined; \<open>(event.page || 0) + 1\<close>.\<close>

definition handlePageChange :: "int option \<Rightarrow> app_state \<Rightarrow> app_state" where
  "handlePageChange page s =
     (let newPage = (case page of None \<Rightarrow> 0 | Some p \<Rightarrow> p) + 1
      in s\<lparr>currentPage := newPage\<rparr>)"

definition handleRowSelect :: "ArtworkData \<Rightarrow> app_state \<Rightarrow> app_state" where
  "handleRowSelect data s =
     (let updatedSelected = finsert (id_num data) (selectedItems s);
          updatedUnselected = unselectedItems s |-| {|id_num data|}
      in s\<lparr>selectedItems := updatedSelected,
            unselectedItems := updatedUnselected,
            selectedCount := Num (int (fcard updatedSelected))\<rparr>)"

definition handleRowUnselect :: "ArtworkData \<Rightarrow> app_state \<Rightarrow> app_state" where
  "handleRowUnselect data s =
     (let updatedSelected = selectedItems s |-| {|id_num data|};
          updatedUnselected = finsert (id_num data) (unselectedItems s)
      in s\<lparr>selectedItems := updatedSelected,
            unselectedItems := updatedUnselected,
            selectedCount := Num (int (fcard updatedSelected))\<rparr>)"

text \<open>The \<open>artworks.forEach\<close> loop that \<open>handleSelectionChange\<close> and the header
  checkbox's \<open>onChange\<close> share, over the remaining rows of the page, with the two sets it
  updates. \<open>want\<close> is the loop's test: \<open>currentlySelected.has(artwork.id)\<close> in the first,
  \<open>e.checked\<close> in the second.\<close>

fun forEach_artwork ::
  "(ArtworkData \<Rightarrow> bool) \<Rightarrow> ArtworkData list \<Rightarrow> int fset \<times> int fset \<Rightarrow> int fset \<times> int fset" where
  "forEach_artwork want [] (newSelectedIds, newUnselectedIds) =
     (newSelectedIds, newUnselectedIds)"
| "forEach_artwork want (artwork # rest) (newSelectedIds, newUnselectedIds) =
     (if want artwork then
        forEach_artwork want rest
          (finsert (id_num artwork) newSelectedIds, newUnselectedIds |-| {|id_num artwork|})
      else
        forEach_artwork want rest
          (newSelectedIds |-| {|id_num artwork|}, finsert (id_num artwork) newUnselectedIds))"

definition handleSelectionChange :: "ArtworkData list \<Rightarrow> app_state \<Rightarrow> app_state" where
  "handleSelectionChange e_value s =
     (let currentlySelected = fset_of_list (map id_num e_value);
          (newSelectedIds, newUnselectedIds) =
             forEach_artwork (\<lambda>artwork. id_num artwork |\<in>| currentlySelected) (artworks s)
               (selectedItems s, unselectedItems s)
      in s\<lparr>selectedItems := newSelectedIds,
            unselectedItems := newUnselectedIds,
            selectedCount := Num (int (fcard newSelectedIds))\<rparr>)"

definition headerCheckbox_onChange :: "bool \<Rightarrow> app_state \<Rightarrow> app_state" where
  "headerCheckbox_onChange checked s =
     (let (newSelectedIds, newUnselectedIds) =
             forEach_artwork (\<lambda>artwork. checked) (artworks s)
               (selectedItems s, unselectedItems s)
      in s\<lparr>selectedItems := newSelectedIds,
            unselectedItems := newUnselectedIds,
            selectedCount := Num (int (fcard newSelectedIds))\<rparr>)"

text \<open>
  \<open>parseInt(inputValue, 10)\<close> of the language: skip leading white space, read an optional
  sign, then the longest run of decimal digits; \<open>NaN\<close> when that run is empty. Characters
  are bytes here, so the white space is ASCII's. The result is the exact integer; a
  \<open>number\<close> rounds integers past \<open>2^53\<close>, which no comparison of this program with a set's
  size can tell apart.
\<close>

definition isWhiteSpace :: "char \<Rightarrow> bool" where
  "isWhiteSpace c = (of_char c \<in> {9, 10, 11, 12, 13, 32 :: nat})"

definition isDigit :: "char \<Rightarrow> bool" where
  "isDigit c = (48 \<le> (of_char c :: nat) \<and> (of_char c :: nat) \<le> 57)"

definition digitsValue :: "string \<Rightarrow> int" where
  "digitsValue Z = foldl (\<lambda>acc c. 10 * acc + (int (of_char c) - 48)) 0 Z"

definition parseInt :: "string \<Rightarrow> number" where
  "parseInt inputString =
     (let S = dropWhile isWhiteSpace inputString;
          sign = (case S of c # _ \<Rightarrow> if c = CHR ''-'' then - 1 else 1 | [] \<Rightarrow> 1);
          S' = (case S of c # r \<Rightarrow> if c = CHR ''+'' \<or> c = CHR ''-'' then r else S | [] \<Rightarrow> S);
          Z = takeWhile isDigit S'
      in if Z = [] then NaN else Num (sign * digitsValue Z))"

text \<open>\<open>input\<close> is \<open>numberInputRef.current?.value\<close>: \<open>None\<close> when the ref is not attached.\<close>

definition handleSubmitSelection :: "string option \<Rightarrow> app_state \<Rightarrow> app_state" where
  "handleSubmitSelection input s =
     (let inputValue = or_default input ''0'';
          targetCount = parseInt inputValue
      in s\<lparr>selectedItems := {||},
            unselectedItems := {||},
            selectedCount := targetCount,
            currentPage := 1\<rparr>)"

definition resetSelections :: "app_state \<Rightarrow> app_state" where
  "resetSelections s = s\<lparr>selectedItems := {||}, unselectedItems := {||}, selectedCount := Num 0\<rparr>"

subsection \<open>What the render computes (lines 166 to 170, 204 to 208, 235)\<close>

definition currentPageItemIds :: "app_state \<Rightarrow> int list" where
  "currentPageItemIds s = map id_num (artworks s)"

definition selectedOnCurrentPage :: "app_state \<Rightarrow> int list" where
  "selectedOnCurrentPage s =
     filter (\<lambda>i. i |\<in>| selectedItems s \<and> i |\<notin>| unselectedItems s) (currentPageItemIds s)"

text \<open>The \<open>checked\<close> property of the header checkbox: a boolean.\<close>

definition areAllCurrentPageItemsSelected :: "app_state \<Rightarrow> bool" where
  "areAllCurrentPageItemsSelected s =
     (length (selectedOnCurrentPage s) = length (currentPageItemIds s)
      \<and> length (currentPageItemIds s) > 0)"

definition getSelectedArtworks :: "app_state \<Rightarrow> ArtworkData list" where
  "getSelectedArtworks s =
     filter (\<lambda>artwork. id_num artwork |\<in>| selectedItems s \<and> id_num artwork |\<notin>| unselectedItems s)
       (artworks s)"

text \<open>The number shown after \<open>Selected Items:\<close> (line 235).\<close>

definition selectedItemsShown :: "app_state \<Rightarrow> nat" where
  "selectedItemsShown s = length (getSelectedArtworks s)"

subsection \<open>Events\<close>

datatype event =
    PageChange "int option"
  | RowSelect ArtworkData
  | RowUnselect ArtworkData
  | SelectionChange "ArtworkData list"
  | HeaderCheckbox bool
  | SubmitSelection "string option"
  | ResetSelections
  | FetchResolved api_response
  | FetchFailed

text \<open>The state after the setters of the event's handler.\<close>

fun dispatch :: "event \<Rightarrow> app_state \<Rightarrow> app_state" where
  "dispatch (PageChange page) s = handlePageChange page s"
| "dispatch (RowSelect data) s = handleRowSelect data s"
| "dispatch (RowUnselect data) s = handleRowUnselect data s"
| "dispatch (SelectionChange e_value) s = handleSelectionChange e_value s"
| "dispatch (HeaderCheckbox checked) s = headerCheckbox_onChange checked s"
| "dispatch (SubmitSelection input) s = handleSubmitSelection input s"
| "dispatch ResetSelections s = resetSelections s"
| "dispatch (FetchResolved res) s = loadArtworks_resolved res s"
| "dispatch FetchFailed s = loadArtworks_failed s"

text \<open>The effect of lines 68 to 70, after a render that follows the state \<open>before\<close>: it
  runs when \<open>currentPage\<close> changed, and starts \<open>loadArtworks\<close>.\<close>

definition pageEffect :: "app_state \<Rightarrow> app_state \<Rightarrow> app_state" where
  "pageEffect before s = (if currentPage s \<noteq> currentPage before then loadArtworks_begin s else s)"

text \<open>
  The auto-select effect reaches its last line (line 91) and calls \<open>setSelectedItems\<close>
  exactly when neither of its guards returns: the target is a number other than zero and
  the set is smaller than the target.
\<close>

definition effectCallsSetter :: "app_state \<Rightarrow> bool" where
  "effectCallsSetter s =
     (case selectedCount s of
        NaN \<Rightarrow> False
      | Num count \<Rightarrow> count \<noteq> 0 \<and> int (fcard (selectedItems s)) < count)"

text \<open>
  One event: the handler, then the effects, until nothing changes any more.

  The auto-select effect runs again whenever one of its dependencies changed, also when
  it changed \<open>selectedItems\<close> itself, and line 91 hands the setter a fresh \<open>Set\<close> on every
  run that passes the guards. So while the target is unmet (\<open>effectCallsSetter s\<close>) the
  effect never comes to rest: after every render another run is pending, and that run
  closes over the state \<open>s\<close> of its render. When an event arrives then, its handler closes
  over the same \<open>s\<close>, and the pending run calls \<open>setSelectedItems\<close> with the set it
  computed from \<open>s\<close>. \<open>stale\<close> says that this call lands after the handler's setters: the
  handler's \<open>selectedItems\<close> is overwritten, its \<open>unselectedItems\<close> and \<open>selectedCount\<close>
  stay. With \<open>stale\<close> false the pending run had called its setter before the event
  arrived, and the handler's setters land last. Which of the two happens depends on the
  moment the event arrives; every theorem below that is stated for an arbitrary \<open>stale\<close>
  holds for both.

  After that the effect runs on the new state. A second run in a row leaves the contents
  of the sets as they are (\<open>autoSelect_idem\<close> below), so one run stands for all of them.
\<close>

definition step :: "bool \<Rightarrow> event \<Rightarrow> app_state \<Rightarrow> app_state" where
  "step stale ev s =
     (let h = pageEffect s (dispatch ev s)
      in if stale \<and> effectCallsSetter s
         then autoSelect (h\<lparr>selectedItems := selectedItems (autoSelect s)\<rparr>)
         else autoSelect h)"

text \<open>A sequence of events, with the same answer to \<open>stale\<close> at each of them.\<close>

definition run :: "bool \<Rightarrow> event list \<Rightarrow> app_state \<Rightarrow> app_state" where
  "run stale evs s = foldl (\<lambda>s ev. step stale ev s) s evs"

text \<open>A response whose rows have the given ids, and no title, artist or pagination.\<close>

definition page_of :: "int list \<Rightarrow> api_response" where
  "page_of ids =
     \<lparr>resp_data = map (\<lambda>i. \<lparr>raw_id = i, raw_title = None, raw_artist_display = None\<rparr>) ids,
      pagination_total = None\<rparr>"

text \<open>The row that \<open>loadArtworks\<close> makes of such a response's element.\<close>

definition row :: "int \<Rightarrow> ArtworkData" where
  "row i = processArtwork \<lparr>raw_id = i, raw_title = None, raw_artist_display = None\<rparr>"

subsection \<open>Predicates and the specification's header state\<close>

text \<open>Invariant I1: no id is in both sets.\<close>

definition disjoint_sets :: "app_state \<Rightarrow> bool" where
  "disjoint_sets s = (selectedItems s |\<inter>| unselectedItems s = {||})"

text \<open>A submitted target that is \<open>NaN\<close>, zero or negative.\<close>

definition notPositive :: "number \<Rightarrow> bool" where
  "notPositive x = (case x of NaN \<Rightarrow> True | Num n \<Rightarrow> n \<le> 0)"

text \<open>
  \<open>headerState\<close> as the specification words it (section 4.3), for comparison with the
  boolean the code computes: \<open>ALL\<close> if every visible id is selected and the page is not
  empty, \<open>NONE\<close> if none is selected or the page is empty, \<open>PARTIAL\<close> otherwise; an id is
  selected when it is in \<open>included\<close>. The three values are \<open>H_ALL\<close>, \<open>H_NONE\<close> and
  \<open>H_PARTIAL\<close> here (\<open>ALL\<close> is HOL's quantifier).
\<close>

datatype header_state = H_ALL | H_NONE | H_PARTIAL

definition headerState_spec :: "int list \<Rightarrow> int fset \<Rightarrow> header_state" where
  "headerState_spec visibleIds included =
     (if visibleIds \<noteq> [] \<and> list_all (\<lambda>i. i |\<in>| included) visibleIds then H_ALL
      else if visibleIds = [] \<or> list_all (\<lambda>i. i |\<notin>| included) visibleIds then H_NONE
      else H_PARTIAL)"

subsection \<open>Scenarios\<close>

text \<open>A bulk request for 15 rows on the fresh component, then the page with ids 1 to 12:
  twelve rows are selected and the target is unmet.\<close>

definition target15_page1 :: app_state where
  "target15_page1 =
     run True [SubmitSelection (Some ''15''), FetchResolved (page_of [1..12])] initial"

text \<open>The same, then the page with ids 13 to 24: the target is met.\<close>

definition target15_page2 :: app_state where
  "target15_page2 =
     run True [SubmitSelection (Some ''15''), FetchResolved (page_of [1..12]),
               FetchResolved (page_of [13..24])] initial"

text \<open>A bulk request for 2 rows met on a page of three rows: id 3 is left undecided.\<close>

definition target2_met :: app_state where
  "target2_met =
     run True [SubmitSelection (Some ''2''), FetchResolved (page_of [1, 2, 3])] initial"

text \<open>A page of three rows and no selection at all.\<close>

definition page_unselected :: app_state where
  "page_unselected = run True [FetchResolved (page_of [1, 2, 3])] initial"

text \<open>With the target of 15 unmet on the page of ids 1 to 12, the header checkbox is
  unchecked, and the pending run's setter lands after the handler's.\<close>

definition header_unchecked_unmet :: app_state where
  "header_unchecked_unmet = step True (HeaderCheckbox False) target15_page1"

text \<open>
  The race: with a bulk request for 15 rows and page 1 (ids 1 to 12) shown, the user goes
  to page 2 and back to page 1 before either response has arrived; then the response for
  page 2 (ids 13 to 24) arrives.
\<close>

definition stale_page2 :: app_state where
  "stale_page2 =
     run True [SubmitSelection (Some ''15''), FetchResolved (page_of [1..12]),
               PageChange (Some 1), PageChange (Some 0),
               FetchResolved (page_of [13..24])] initial"

section \<open>The loops and the effect\<close>

lemma autoSelect_loop_superset:
  "newSelected |\<subseteq>| autoSelect_loop count unselected ids newSelected c"
proof (induction ids arbitrary: newSelected c)
  case Nil
  show ?case by simp
next
  case (Cons i ids)
  have "newSelected |\<subseteq>| finsert i newSelected" by auto
  also have "\<dots> |\<subseteq>| autoSelect_loop count unselected ids (finsert i newSelected) (c + 1)"
    by (rule Cons.IH)
  finally show ?case using Cons.IH [of newSelected c] by auto
qed

lemma autoSelect_loop_disjoint:
  "newSelected |\<inter>| unselected = {||} \<Longrightarrow>
   autoSelect_loop count unselected ids newSelected c |\<inter>| unselected = {||}"
  by (induction ids arbitrary: newSelected c) auto

text \<open>A page whose ids are all decided leaves the loop nothing to add.\<close>

lemma autoSelect_loop_unchanged:
  "list_all (\<lambda>i. i |\<in>| newSelected \<or> i |\<in>| unselected) ids \<Longrightarrow>
   autoSelect_loop count unselected ids newSelected c = newSelected"
  by (induction ids arbitrary: newSelected c) auto

text \<open>When the loop ends below the target it has walked the whole page, and every id of
  the page is decided afterwards. The counter starts at the set's size, as in the effect.\<close>

lemma autoSelect_loop_exhausted:
  "c = int (fcard newSelected) \<Longrightarrow>
   int (fcard (autoSelect_loop count unselected ids newSelected c)) < count \<Longrightarrow>
   list_all (\<lambda>i. i |\<in>| autoSelect_loop count unselected ids newSelected c \<or> i |\<in>| unselected) ids"
proof (induction ids arbitrary: newSelected c)
  case Nil
  then show ?case by simp
next
  case (Cons i ids)
  show ?case
  proof (cases "i |\<notin>| newSelected \<and> i |\<notin>| unselected")
    case fresh: True
    show ?thesis
    proof (cases "c + 1 \<ge> count")
      case True
      with fresh Cons.prems show ?thesis
        by (simp add: fcard_finsert_disjoint)
    next
      case False
      let ?N = "finsert i newSelected"
      have c: "c + 1 = int (fcard ?N)"
        using fresh Cons.prems(1) by (simp add: fcard_finsert_disjoint)
      have r: "autoSelect_loop count unselected (i # ids) newSelected c
               = autoSelect_loop count unselected ids ?N (c + 1)"
        using fresh False by simp
      have "list_all (\<lambda>j. j |\<in>| autoSelect_loop count unselected ids ?N (c + 1) \<or> j |\<in>| unselected) ids"
        using Cons.IH [OF c] Cons.prems(2) r by simp
      moreover have "i |\<in>| autoSelect_loop count unselected ids ?N (c + 1)"
        using autoSelect_loop_superset [of ?N count unselected ids "c + 1"] by auto
      ultimately show ?thesis using r by simp
    qed
  next
    case False
    then have r: "autoSelect_loop count unselected (i # ids) newSelected c
               = autoSelect_loop count unselected ids newSelected c"
      by auto
    have "list_all (\<lambda>j. j |\<in>| autoSelect_loop count unselected ids newSelected c \<or> j |\<in>| unselected) ids"
      using Cons.IH [OF Cons.prems(1)] Cons.prems(2) r by simp
    moreover have "i |\<in>| autoSelect_loop count unselected ids newSelected c \<or> i |\<in>| unselected"
      using False autoSelect_loop_superset [of newSelected count unselected ids c] by auto
    ultimately show ?thesis using r by simp
  qed
qed

text \<open>A second run of the effect right after a first one changes nothing: either the
  target is met and the guard returns, or the page has no undecided id left.\<close>

lemma autoSelect_idem: "autoSelect (autoSelect s) = autoSelect s"
proof (cases "selectedCount s")
  case NaN
  then show ?thesis by (simp add: autoSelect_def)
next
  case (Num count)
  show ?thesis
  proof (cases "count = 0 \<or> int (fcard (selectedItems s)) \<ge> count")
    case True
    with Num show ?thesis by (auto simp: autoSelect_def)
  next
    case False
    define L where "L = autoSelect_loop count (unselectedItems s) (map id_num (artworks s))
                       (selectedItems s) (int (fcard (selectedItems s)))"
    have s': "autoSelect s = s\<lparr>selectedItems := L\<rparr>"
      using Num False by (simp add: autoSelect_def L_def)
    have "autoSelect (s\<lparr>selectedItems := L\<rparr>) = s\<lparr>selectedItems := L\<rparr>"
    proof (cases "int (fcard L) \<ge> count")
      case True
      with Num show ?thesis by (simp add: autoSelect_def Let_def)
    next
      case small: False
      have "list_all (\<lambda>i. i |\<in>| L \<or> i |\<in>| unselectedItems s) (map id_num (artworks s))"
        unfolding L_def using small
        by (intro autoSelect_loop_exhausted) (simp_all add: L_def)
      then have "autoSelect_loop count (unselectedItems s) (map id_num (artworks s)) L (int (fcard L)) = L"
        by (rule autoSelect_loop_unchanged)
      with Num small show ?thesis by (simp add: autoSelect_def Let_def)
    qed
    then show ?thesis by (simp only: s')
  qed
qed

lemma forEach_artwork_disjoint:
  "fst p |\<inter>| snd p = {||} \<Longrightarrow>
   fst (forEach_artwork want rows p) |\<inter>| snd (forEach_artwork want rows p) = {||}"
proof (induction rows arbitrary: p)
  case Nil
  then show ?case by (cases p) simp
next
  case (Cons a rows)
  obtain S U where p: "p = (S, U)" by (cases p)
  show ?case
  proof (cases "want a")
    case True
    have "fst (finsert (id_num a) S, U |-| {|id_num a|}) |\<inter>| snd (finsert (id_num a) S, U |-| {|id_num a|}) = {||}"
      using Cons.prems p by auto
    from Cons.IH [OF this] True p show ?thesis by simp
  next
    case False
    have "fst (S |-| {|id_num a|}, finsert (id_num a) U) |\<inter>| snd (S |-| {|id_num a|}, finsert (id_num a) U) = {||}"
      using Cons.prems p by auto
    from Cons.IH [OF this] False p show ?thesis by simp
  qed
qed

section \<open>The effect at rest\<close>

lemma autoSelect_at_rest: "\<not> effectCallsSetter s \<Longrightarrow> autoSelect s = s"
  by (auto simp: effectCallsSetter_def autoSelect_def Let_def split: number.splits)

text \<open>When no run of the effect is pending, an event is its handler followed by the effects.\<close>

lemma step_at_rest:
  "\<not> effectCallsSetter s \<Longrightarrow> step stale ev s = autoSelect (pageEffect s (dispatch ev s))"
  by (simp add: step_def)

text \<open>When \<open>selectedCount\<close> is the size of \<open>selectedItems\<close> the effect returns at one of
  its two guards.\<close>

lemma satisfied_at_rest:
  "selectedCount s = Num (int (fcard (selectedItems s))) \<Longrightarrow> \<not> effectCallsSetter s"
  by (simp add: effectCallsSetter_def)

lemma autoSelect_satisfied:
  "selectedCount s = Num (int (fcard (selectedItems s))) \<Longrightarrow> autoSelect s = s"
  by (simp add: autoSelect_def)

lemma pageEffect_effectCallsSetter: "effectCallsSetter (pageEffect before s) = effectCallsSetter s"
  by (cases "selectedCount s")
     (simp_all add: pageEffect_def loadArtworks_begin_def effectCallsSetter_def)

lemma autoSelect_artworks: "artworks (autoSelect s) = artworks s"
  by (simp add: autoSelect_def Let_def split: number.splits)

lemma autoSelect_currentPage: "currentPage (autoSelect s) = currentPage s"
  by (simp add: autoSelect_def Let_def split: number.splits)

lemma autoSelect_unselectedItems: "unselectedItems (autoSelect s) = unselectedItems s"
  by (simp add: autoSelect_def Let_def split: number.splits)

section \<open>Disjointness of the two sets\<close>

text \<open>Each handler's own setters, and each run of the effect on the state it closes over,
  keep the two sets disjoint.\<close>

lemma autoSelect_disjoint: "disjoint_sets s \<Longrightarrow> disjoint_sets (autoSelect s)"
  by (auto simp: disjoint_sets_def autoSelect_def Let_def autoSelect_loop_disjoint split: number.splits)

lemma dispatch_disjoint: "disjoint_sets s \<Longrightarrow> disjoint_sets (dispatch ev s)"
proof (cases ev)
  case (SelectionChange v)
  assume d: "disjoint_sets s"
  then have "fst (selectedItems s, unselectedItems s) |\<inter>| snd (selectedItems s, unselectedItems s) = {||}"
    by (simp add: disjoint_sets_def)
  from forEach_artwork_disjoint [OF this]
  show ?thesis using SelectionChange
    by (simp add: disjoint_sets_def handleSelectionChange_def Let_def split: prod.splits) (metis fst_conv snd_conv)
next
  case (HeaderCheckbox c)
  assume d: "disjoint_sets s"
  then have "fst (selectedItems s, unselectedItems s) |\<inter>| snd (selectedItems s, unselectedItems s) = {||}"
    by (simp add: disjoint_sets_def)
  from forEach_artwork_disjoint [OF this]
  show ?thesis using HeaderCheckbox
    by (simp add: disjoint_sets_def headerCheckbox_onChange_def Let_def split: prod.splits) (metis fst_conv snd_conv)
qed (auto simp: disjoint_sets_def handlePageChange_def handleRowSelect_def handleRowUnselect_def
      handleSubmitSelection_def resetSelections_def loadArtworks_resolved_def loadArtworks_failed_def Let_def)

lemma pageEffect_disjoint: "disjoint_sets s \<Longrightarrow> disjoint_sets (pageEffect b s)"
  by (simp add: disjoint_sets_def pageEffect_def loadArtworks_begin_def)

text \<open>An event that arrives while no run of the effect is pending keeps them disjoint.\<close>

lemma step_at_rest_disjoint:
  "\<not> effectCallsSetter s \<Longrightarrow> disjoint_sets s \<Longrightarrow> disjoint_sets (step stale ev s)"
  by (simp add: step_at_rest autoSelect_disjoint pageEffect_disjoint dispatch_disjoint)

text \<open>
  C1 fails on the code. On the fresh component the user asks for 15 rows and the page with
  ids 1 to 12 arrives: the sets are disjoint, 12 rows are selected, the target is unmet and
  a run of the effect is pending. The user unselects row 3. The handler's own setters keep
  the sets disjoint (id 3 leaves \<open>selectedItems\<close> and enters \<open>unselectedItems\<close>), but the
  pending run then sets \<open>selectedItems\<close> to the twelve ids it closed over: id 3 is in both
  sets, and stays there.
\<close>

theorem stale_run_breaks_disjointness:
  "selectedItems target15_page1 |\<inter>| unselectedItems target15_page1 = {||}
   \<and> effectCallsSetter target15_page1
   \<and> selectedItems (dispatch (RowUnselect (row 3)) target15_page1)
       |\<inter>| unselectedItems (dispatch (RowUnselect (row 3)) target15_page1) = {||}
   \<and> selectedItems (step True (RowUnselect (row 3)) target15_page1)
       = {|1, 2, 3, 4, 5, 6, 7, 8, 9, 10, 11, 12|}
   \<and> unselectedItems (step True (RowUnselect (row 3)) target15_page1) = {|3|}
   \<and> selectedItems (step True (RowUnselect (row 3)) target15_page1)
       |\<inter>| unselectedItems (step True (RowUnselect (row 3)) target15_page1) = {|3|}"
  by code_simp

section \<open>Bulk fill\<close>

text \<open>
  C2. On the fresh component, a bulk request for 15 rows followed by the page with ids 1 to
  12 and then the page with ids 13 to 24, with no manual edit, ends with
  \<open>selectedItems\<close> equal to the ids 1 to 15, of size 15. After the first page the set holds
  the ids 1 to 12.
\<close>

theorem bulk_fill_two_pages:
  "selectedItems (run stale [SubmitSelection (Some ''15''), FetchResolved (page_of [1..12]),
                       FetchResolved (page_of [13..24])] initial)
     = {|1, 2, 3, 4, 5, 6, 7, 8, 9, 10, 11, 12, 13, 14, 15|}
   \<and> fcard (selectedItems (run stale [SubmitSelection (Some ''15''), FetchResolved (page_of [1..12]),
                       FetchResolved (page_of [13..24])] initial)) = 15
   \<and> selectedItems (run stale [SubmitSelection (Some ''15''), FetchResolved (page_of [1..12])] initial)
     = {|1, 2, 3, 4, 5, 6, 7, 8, 9, 10, 11, 12|}
   \<and> unselectedItems (run stale [SubmitSelection (Some ''15''), FetchResolved (page_of [1..12]),
                       FetchResolved (page_of [13..24])] initial) = {||}"
  by (induct stale; code_simp)

text \<open>
  C5. A bulk request for 5 rows with the single page of ids 1 to 12, in either order of
  request and page, gives \<open>selectedItems = {1, 2, 3, 4, 5}\<close>. Running the effect again on
  that state, or delivering the same page again, leaves the state as it is. In general a
  run of the effect right after another changes nothing.
\<close>

theorem fill_saturation:
  "selectedItems (run stale [SubmitSelection (Some ''5''), FetchResolved (page_of [1..12])] initial)
     = {|1, 2, 3, 4, 5|}
   \<and> selectedItems (run stale [FetchResolved (page_of [1..12]), SubmitSelection (Some ''5'')] initial)
     = {|1, 2, 3, 4, 5|}
   \<and> autoSelect (run stale [SubmitSelection (Some ''5''), FetchResolved (page_of [1..12])] initial)
     = run stale [SubmitSelection (Some ''5''), FetchResolved (page_of [1..12])] initial
   \<and> step stale (FetchResolved (page_of [1..12]))
         (run stale [SubmitSelection (Some ''5''), FetchResolved (page_of [1..12])] initial)
     = run stale [SubmitSelection (Some ''5''), FetchResolved (page_of [1..12])] initial
   \<and> autoSelect (autoSelect s) = autoSelect s"
proof -
  have "selectedItems (run stale [SubmitSelection (Some ''5''), FetchResolved (page_of [1..12])] initial)
     = {|1, 2, 3, 4, 5|}"
    by (induct stale; code_simp)
  moreover have "selectedItems (run stale [FetchResolved (page_of [1..12]), SubmitSelection (Some ''5'')] initial)
     = {|1, 2, 3, 4, 5|}"
    by (induct stale; code_simp)
  moreover have "autoSelect (run stale [SubmitSelection (Some ''5''), FetchResolved (page_of [1..12])] initial)
     = run stale [SubmitSelection (Some ''5''), FetchResolved (page_of [1..12])] initial"
    by (induct stale; code_simp)
  moreover have "step stale (FetchResolved (page_of [1..12]))
         (run stale [SubmitSelection (Some ''5''), FetchResolved (page_of [1..12])] initial)
     = run stale [SubmitSelection (Some ''5''), FetchResolved (page_of [1..12])] initial"
    by (induct stale; code_simp)
  ultimately show ?thesis
    by (simp only: autoSelect_idem simp_thms)
qed

section \<open>Manual edits and the target count\<close>

text \<open>
  C9 fails on the code, by the defect of C1. In the state of C1 (target 15 unmet, ids 1 to
  12 selected) the user unselects row 3: the handler sets \<open>selectedCount\<close> to 11, the size
  of the set it computed, but the pending run puts the twelve ids back, so the target is
  11 and the set has 12 elements. Unchecking the header checkbox instead leaves the target
  0 and 12 ids selected. Each handler's own setters do leave \<open>selectedCount\<close> equal to the
  size of the handler's set.
\<close>

theorem stale_run_breaks_target_count:
  "selectedCount (dispatch (RowUnselect (row 3)) target15_page1)
     = Num (int (fcard (selectedItems (dispatch (RowUnselect (row 3)) target15_page1))))
   \<and> selectedCount (step True (RowUnselect (row 3)) target15_page1) = Num 11
   \<and> fcard (selectedItems (step True (RowUnselect (row 3)) target15_page1)) = 12
   \<and> selectedCount (step True (HeaderCheckbox False) target15_page1) = Num 0
   \<and> fcard (selectedItems (step True (HeaderCheckbox False) target15_page1)) = 12"
  by code_simp

text \<open>
  C3, as the code has it. \<open>handleRowSelect\<close> hands the setters \<open>selectedItems\<close> with the
  id added and \<open>unselectedItems\<close> with the id removed, \<open>handleRowUnselect\<close> the converse,
  and both hand \<open>setSelectedCount\<close> the size of the new \<open>selectedItems\<close>; they set nothing
  else.
\<close>

theorem toggle_moves_id_and_sets_count:
  "selectedItems (handleRowSelect d s) = finsert (id_num d) (selectedItems s)
   \<and> unselectedItems (handleRowSelect d s) = unselectedItems s |-| {|id_num d|}
   \<and> selectedCount (handleRowSelect d s) = Num (int (fcard (finsert (id_num d) (selectedItems s))))
   \<and> selectedItems (handleRowUnselect d s) = selectedItems s |-| {|id_num d|}
   \<and> unselectedItems (handleRowUnselect d s) = finsert (id_num d) (unselectedItems s)
   \<and> selectedCount (handleRowUnselect d s) = Num (int (fcard (selectedItems s |-| {|id_num d|})))
   \<and> id_num d |\<in>| selectedItems (handleRowSelect d s)
   \<and> id_num d |\<notin>| unselectedItems (handleRowSelect d s)
   \<and> id_num d |\<notin>| selectedItems (handleRowUnselect d s)
   \<and> id_num d |\<in>| unselectedItems (handleRowUnselect d s)
   \<and> artworks (handleRowSelect d s) = artworks s \<and> artworks (handleRowUnselect d s) = artworks s
   \<and> currentPage (handleRowSelect d s) = currentPage s
   \<and> currentPage (handleRowUnselect d s) = currentPage s"
  by (simp add: handleRowSelect_def handleRowUnselect_def Let_def)

text \<open>
  C3 as stated fails: with a bulk request for 15 rows outstanding and 12 rows selected,
  unselecting row 3 changes \<open>selectedCount\<close> from 15 to 11 and selecting it (again) changes
  it to 12; on the fresh component, selecting row 1 changes it from 0 to 1.
\<close>

theorem toggle_changes_target_count:
  "selectedCount target15_page1 = Num 15
   \<and> selectedCount (handleRowUnselect (row 3) target15_page1) = Num 11
   \<and> selectedCount (handleRowSelect (row 3) target15_page1) = Num 12
   \<and> selectedCount initial = Num 0
   \<and> selectedCount (handleRowSelect (row 1) initial) = Num 1"
  by code_simp

text \<open>
  C4, as the code has it. When \<open>selectedCount\<close> equals the size of \<open>selectedItems\<close>, that
  size is positive and the user unselects a selected row, the whole event (handler and
  effects) takes the id out of \<open>selectedItems\<close>, puts it into \<open>unselectedItems\<close> and lowers
  \<open>selectedCount\<close> by one, to the new size: nothing is selected in its place.
\<close>

theorem deselect_at_target_lowers_target:
  assumes "selectedCount s = Num (int (fcard (selectedItems s)))"
    and "0 < fcard (selectedItems s)"
    and "id_num d |\<in>| selectedItems s"
  shows "selectedItems (step stale (RowUnselect d) s) = selectedItems s |-| {|id_num d|}
     \<and> unselectedItems (step stale (RowUnselect d) s) = finsert (id_num d) (unselectedItems s)
     \<and> selectedCount (step stale (RowUnselect d) s) = Num (int (fcard (selectedItems s)) - 1)
     \<and> int (fcard (selectedItems (step stale (RowUnselect d) s))) = int (fcard (selectedItems s)) - 1"
proof -
  have h: "selectedCount (handleRowUnselect d s) = Num (int (fcard (selectedItems (handleRowUnselect d s))))"
    by (simp add: handleRowUnselect_def Let_def)
  have p: "currentPage (handleRowUnselect d s) = currentPage s"
    by (simp add: handleRowUnselect_def Let_def)
  have st: "step stale (RowUnselect d) s = handleRowUnselect d s"
    by (simp add: step_at_rest [OF satisfied_at_rest [OF assms(1)]] pageEffect_def p
          autoSelect_satisfied [OF h])
  have card: "int (fcard (selectedItems s |-| {|id_num d|})) = int (fcard (selectedItems s)) - 1"
    using assms(2,3) fcard_Suc_fminus1 [of "id_num d" "selectedItems s"] by simp
  show ?thesis
    using card by (simp add: st handleRowUnselect_def Let_def)
qed

text \<open>The theorem at the state where a bulk request for 2 rows is met on the page of ids
  1, 2, 3, and row 2 is unselected.\<close>

theorem deselect_at_target_lowers_target_witness:
  "selectedCount target2_met = Num (int (fcard (selectedItems target2_met)))
   \<and> 0 < fcard (selectedItems target2_met)
   \<and> id_num (row 2) |\<in>| selectedItems target2_met
   \<and> selectedItems (step True (RowUnselect (row 2)) target2_met) = selectedItems target2_met |-| {|id_num (row 2)|}
   \<and> selectedCount (step True (RowUnselect (row 2)) target2_met) = Num 1"
proof -
  have a: "selectedCount target2_met = Num (int (fcard (selectedItems target2_met)))" by code_simp
  have b: "0 < fcard (selectedItems target2_met)" by code_simp
  have c: "id_num (row 2) |\<in>| selectedItems target2_met" by code_simp
  have n: "fcard (selectedItems target2_met) = 2" by code_simp
  show ?thesis
    using a b c deselect_at_target_lowers_target [OF a b c, of True] by (simp add: n)
qed

text \<open>
  C4 as stated fails: in that state the count equals the target 2, row 2 is selected and
  id 3 of the visible page is undecided; after row 2 is unselected and the effects have
  run, \<open>selectedItems\<close> is \<open>{1}\<close>, id 3 is still not selected, and the target is 1.
\<close>

theorem deselect_at_target_no_refill:
  "selectedCount target2_met = Num (int (fcard (selectedItems target2_met)))
   \<and> fcard (selectedItems target2_met) = 2
   \<and> 2 |\<in>| selectedItems target2_met
   \<and> currentPageItemIds target2_met = [1, 2, 3]
   \<and> 3 |\<notin>| selectedItems target2_met \<and> 3 |\<notin>| unselectedItems target2_met
   \<and> selectedItems (step True (RowUnselect (row 2)) target2_met) = {|1|}
   \<and> 3 |\<notin>| selectedItems (step True (RowUnselect (row 2)) target2_met)
   \<and> selectedCount (step True (RowUnselect (row 2)) target2_met) = Num 1
   \<and> selectedItems (step False (RowUnselect (row 2)) target2_met) = {|1|}
   \<and> 3 |\<notin>| selectedItems (step False (RowUnselect (row 2)) target2_met)
   \<and> selectedCount (step False (RowUnselect (row 2)) target2_met) = Num 1"
  by code_simp

section \<open>Bulk requests that ask for nothing\<close>

text \<open>
  C10. When the submitted input parses to \<open>NaN\<close>, zero or a negative number, the run of the
  effect that follows \<open>handleSubmitSelection\<close> changes nothing: it returns at a guard, and
  leaves both sets as the handler set them, empty. \<open>unselectedItems\<close> is empty after the
  whole event, and so is \<open>selectedItems\<close> when no earlier run of the effect was pending as
  the input was submitted.
\<close>

theorem not_positive_target_selects_nothing:
  assumes "notPositive (parseInt (or_default input ''0''))"
  shows "autoSelect (handleSubmitSelection input s) = handleSubmitSelection input s
     \<and> selectedItems (handleSubmitSelection input s) = {||}
     \<and> unselectedItems (handleSubmitSelection input s) = {||}
     \<and> unselectedItems (step stale (SubmitSelection input) s) = {||}
     \<and> (\<not> effectCallsSetter s \<longrightarrow> selectedItems (step stale (SubmitSelection input) s) = {||})"
proof -
  have n: "\<not> effectCallsSetter (handleSubmitSelection input s)"
    using assms
    by (auto simp: notPositive_def effectCallsSetter_def handleSubmitSelection_def Let_def
          split: number.splits)
  have a: "autoSelect (handleSubmitSelection input s) = handleSubmitSelection input s"
    using n by (rule autoSelect_at_rest)
  have b: "selectedItems (handleSubmitSelection input s) = {||}
         \<and> unselectedItems (handleSubmitSelection input s) = {||}"
    by (simp add: handleSubmitSelection_def Let_def)
  have u: "unselectedItems (step stale (SubmitSelection input) s) = {||}"
    by (simp add: step_def Let_def autoSelect_unselectedItems pageEffect_def loadArtworks_begin_def
          handleSubmitSelection_def)
  have r: "selectedItems (step stale (SubmitSelection input) s) = {||}" if "\<not> effectCallsSetter s"
  proof -
    have "\<not> effectCallsSetter (pageEffect s (handleSubmitSelection input s))"
      using n by (simp add: pageEffect_effectCallsSetter)
    then have "autoSelect (pageEffect s (handleSubmitSelection input s))
               = pageEffect s (handleSubmitSelection input s)"
      by (rule autoSelect_at_rest)
    then show ?thesis
      by (simp add: step_at_rest [OF that])
         (simp add: pageEffect_def loadArtworks_begin_def handleSubmitSelection_def Let_def)
  qed
  show ?thesis using a b u r by simp
qed

text \<open>The theorem at the inputs \<open>-3\<close> (negative), \<open>abc\<close> (\<open>NaN\<close>) and the empty input (which
  \<open>|| '0'\<close> turns into zero), submitted while 15 rows are selected and the target of 15 is
  met.\<close>

theorem not_positive_target_selects_nothing_witness:
  "\<not> effectCallsSetter target15_page2
   \<and> fcard (selectedItems target15_page2) = 15
   \<and> notPositive (parseInt (or_default (Some ''-3'') ''0''))
   \<and> selectedItems (step True (SubmitSelection (Some ''-3'')) target15_page2) = {||}
   \<and> notPositive (parseInt (or_default (Some ''abc'') ''0''))
   \<and> selectedItems (step True (SubmitSelection (Some ''abc'')) target15_page2) = {||}
   \<and> notPositive (parseInt (or_default (Some []) ''0''))
   \<and> selectedItems (step True (SubmitSelection (Some [])) target15_page2) = {||}"
proof -
  have r: "\<not> effectCallsSetter target15_page2" by code_simp
  have n: "fcard (selectedItems target15_page2) = 15" by code_simp
  have a: "notPositive (parseInt (or_default (Some ''-3'') ''0''))" by code_simp
  have b: "notPositive (parseInt (or_default (Some ''abc'') ''0''))" by code_simp
  have c: "notPositive (parseInt (or_default (Some []) ''0''))" by code_simp
  show ?thesis
    using r n a b c not_positive_target_selects_nothing [OF a, of target15_page2 True]
      not_positive_target_selects_nothing [OF b, of target15_page2 True]
      not_positive_target_selects_nothing [OF c, of target15_page2 True]
    by simp
qed

section \<open>What the page shows\<close>

lemma length_filter_all: "(length (filter P xs) = length xs) = list_all P xs"
proof (induction xs)
  case Nil
  show ?case by simp
next
  case (Cons x xs)
  have "length (filter P xs) < Suc (length xs)"
    using length_filter_le [of P xs] by (simp only: less_Suc_eq_le)
  then show ?case using Cons by auto
qed

text \<open>
  C6, as the code has it. The header checkbox has two values. It is checked exactly when
  the page is not empty and every visible id is in \<open>selectedItems\<close> and not in
  \<open>unselectedItems\<close>. In every other case it is unchecked.
\<close>

theorem header_checkbox_checked_iff_all:
  "areAllCurrentPageItemsSelected s =
     (currentPageItemIds s \<noteq> []
      \<and> list_all (\<lambda>i. i |\<in>| selectedItems s \<and> i |\<notin>| unselectedItems s) (currentPageItemIds s))"
  by (auto simp: areAllCurrentPageItemsSelected_def selectedOnCurrentPage_def length_filter_all)

text \<open>
  C6 as stated fails: the code's indicator cannot tell \<open>PARTIAL\<close> from \<open>NONE\<close>. On the page
  of ids 1, 2, 3 it has the same value (unchecked) when ids 1 and 2 are selected, where the
  specification's header state is \<open>PARTIAL\<close>, and when nothing is selected, where it is
  \<open>NONE\<close>.
\<close>

theorem header_checkbox_two_valued:
  "areAllCurrentPageItemsSelected target2_met = areAllCurrentPageItemsSelected page_unselected
   \<and> headerState_spec (currentPageItemIds target2_met) (selectedItems target2_met) = H_PARTIAL
   \<and> headerState_spec (currentPageItemIds page_unselected) (selectedItems page_unselected) = H_NONE"
  by code_simp

lemma shown_as_filter:
  "selectedItemsShown s =
     length (filter (\<lambda>i. i |\<in>| selectedItems s \<and> i |\<notin>| unselectedItems s) (currentPageItemIds s))"
  by (simp add: selectedItemsShown_def getSelectedArtworks_def currentPageItemIds_def filter_map comp_def)

lemma distinct_filter_fcard:
  "distinct ids \<Longrightarrow> length (filter (\<lambda>i. i |\<in>| A) ids) = fcard (A |\<inter>| fset_of_list ids)"
proof -
  assume d: "distinct ids"
  have "distinct (filter (\<lambda>i. i |\<in>| A) ids)"
    using d by simp
  then have "length (filter (\<lambda>i. i |\<in>| A) ids) = card (set (filter (\<lambda>i. i |\<in>| A) ids))"
    by (simp only: distinct_card)
  also have "set (filter (\<lambda>i. i |\<in>| A) ids) = fset (A |\<inter>| fset_of_list ids)"
    by (auto simp: fset_of_list.rep_eq)
  finally show ?thesis by (simp add: fcard.rep_eq)
qed

text \<open>
  C7, as the code has it. In every state the number shown after \<open>Selected Items:\<close> is the
  number of rows of the visible page whose id is in \<open>selectedItems\<close> and not in
  \<open>unselectedItems\<close>. On a page without repeated ids it is the number of ids that are in
  \<open>selectedItems\<close>, not in \<open>unselectedItems\<close> and on the visible page; it is at most the
  size of \<open>selectedItems\<close>, and equal to it exactly when every selected id is on the
  visible page and none of them is in \<open>unselectedItems\<close>.
\<close>

theorem shown_count_is_visible_selected:
  "selectedItemsShown s =
     length (filter (\<lambda>i. i |\<in>| selectedItems s \<and> i |\<notin>| unselectedItems s) (currentPageItemIds s))
   \<and> (distinct (currentPageItemIds s) \<longrightarrow>
        selectedItemsShown s
          = fcard ((selectedItems s |-| unselectedItems s) |\<inter>| fset_of_list (currentPageItemIds s))
        \<and> selectedItemsShown s \<le> fcard (selectedItems s)
        \<and> (selectedItemsShown s = fcard (selectedItems s))
            = (selectedItems s |\<subseteq>| fset_of_list (currentPageItemIds s)
               \<and> selectedItems s |\<inter>| unselectedItems s = {||}))"
proof -
  let ?V = "fset_of_list (currentPageItemIds s)"
  let ?E = "(selectedItems s |-| unselectedItems s) |\<inter>| ?V"
  have e: "(i |\<in>| selectedItems s \<and> i |\<notin>| unselectedItems s)
           = (i |\<in>| selectedItems s |-| unselectedItems s)" for i
    by auto
  have a: "selectedItemsShown s = fcard ?E" if "distinct (currentPageItemIds s)"
    using distinct_filter_fcard [OF that, of "selectedItems s |-| unselectedItems s"]
    by (simp only: shown_as_filter e)
  have sub: "?E |\<subseteq>| selectedItems s" by auto
  have b: "fcard ?E \<le> fcard (selectedItems s)"
    using sub by (rule fcard_mono)
  have c: "(fcard ?E = fcard (selectedItems s))
           = (selectedItems s |\<subseteq>| ?V \<and> selectedItems s |\<inter>| unselectedItems s = {||})"
  proof
    assume "fcard ?E = fcard (selectedItems s)"
    then have "?E = selectedItems s"
      using sub by (intro fcard_seteq) simp_all
    then have "selectedItems s |\<subseteq>| ?E" by simp
    then show "selectedItems s |\<subseteq>| ?V \<and> selectedItems s |\<inter>| unselectedItems s = {||}"
      by auto
  next
    assume "selectedItems s |\<subseteq>| ?V \<and> selectedItems s |\<inter>| unselectedItems s = {||}"
    then have "?E = selectedItems s" by auto
    then show "fcard ?E = fcard (selectedItems s)" by simp
  qed
  show ?thesis
    using a b c by (simp add: shown_as_filter)
qed

text \<open>The theorem at two states with a page of distinct ids: after a bulk request for 15
  rows and the pages of ids 1 to 12 and 13 to 24, three of the fifteen selected ids are on
  the visible page; and in the state where the twelve ids of the page are in both sets,
  none of the twelve selected ids is counted.\<close>

theorem shown_count_is_visible_selected_witness:
  "distinct (currentPageItemIds target15_page2)
   \<and> selectedItemsShown target15_page2
       = fcard ((selectedItems target15_page2 |-| unselectedItems target15_page2)
                 |\<inter>| fset_of_list (currentPageItemIds target15_page2))
   \<and> selectedItemsShown target15_page2 \<le> fcard (selectedItems target15_page2)
   \<and> selectedItemsShown target15_page2 = 3
   \<and> distinct (currentPageItemIds header_unchecked_unmet)
   \<and> selectedItemsShown header_unchecked_unmet
       = fcard ((selectedItems header_unchecked_unmet |-| unselectedItems header_unchecked_unmet)
                 |\<inter>| fset_of_list (currentPageItemIds header_unchecked_unmet))
   \<and> selectedItemsShown header_unchecked_unmet = 0
   \<and> fcard (selectedItems header_unchecked_unmet) = 12"
proof -
  have a: "distinct (currentPageItemIds target15_page2)" by code_simp
  have b: "distinct (currentPageItemIds header_unchecked_unmet)" by code_simp
  have c: "selectedItemsShown target15_page2 = 3" by code_simp
  have d: "selectedItemsShown header_unchecked_unmet = 0" by code_simp
  have e: "fcard (selectedItems header_unchecked_unmet) = 12" by code_simp
  have x: "selectedItemsShown target15_page2
       = fcard ((selectedItems target15_page2 |-| unselectedItems target15_page2)
                 |\<inter>| fset_of_list (currentPageItemIds target15_page2))
     \<and> selectedItemsShown target15_page2 \<le> fcard (selectedItems target15_page2)"
    using a shown_count_is_visible_selected [of target15_page2] by blast
  have y: "selectedItemsShown header_unchecked_unmet
       = fcard ((selectedItems header_unchecked_unmet |-| unselectedItems header_unchecked_unmet)
                 |\<inter>| fset_of_list (currentPageItemIds header_unchecked_unmet))"
    using b shown_count_is_visible_selected [of header_unchecked_unmet] by blast
  show ?thesis
    using a b c d e x y by blast
qed

text \<open>
  C7 as stated fails: in the first of these states \<open>selectedItems\<close> has 15 elements and the
  number shown is 3.
\<close>

theorem shown_count_is_page_local:
  "fcard (selectedItems target15_page2) = 15 \<and> selectedItemsShown target15_page2 = 3"
  by code_simp

section \<open>Page responses\<close>

text \<open>
  C8, as the code has it. A response carries no sequence number and is never compared with
  the page last asked for: whenever a response arrives, in any state, the visible page
  becomes that response's rows and \<open>currentPage\<close> stays as it is. So the visible page is
  the one of the response that arrived last; in the race, once the response for page 1 has
  arrived after the one for page 2, the visible page is page 1.
\<close>

theorem every_response_is_applied:
  "currentPageItemIds (step stale (FetchResolved res) s) = map raw_id (resp_data res)
   \<and> currentPage (step stale (FetchResolved res) s) = currentPage s
   \<and> currentPageItemIds (step stale (FetchResolved (page_of [1..12])) stale_page2) = [1..12]
   \<and> currentPage (step stale (FetchResolved (page_of [1..12])) stale_page2) = 1"
proof -
  have a: "currentPageItemIds (step stale (FetchResolved res) s) = map raw_id (resp_data res)" for res s
    by (simp add: step_def Let_def currentPageItemIds_def autoSelect_artworks pageEffect_def
         loadArtworks_begin_def loadArtworks_resolved_def processArtwork_def comp_def)
  have b: "currentPage (step stale (FetchResolved res) s) = currentPage s" for res s
    by (simp add: step_def Let_def autoSelect_currentPage pageEffect_def
         loadArtworks_begin_def loadArtworks_resolved_def)
  have c: "map raw_id (resp_data (page_of [1..12])) = [1..12]"
    by (simp add: page_of_def comp_def)
  have d: "currentPage stale_page2 = 1" by code_simp
  show ?thesis
    using a [of res s] b [of res s] a [of "page_of [1..12]" stale_page2]
      b [of "page_of [1..12]" stale_page2] c d
    by simp
qed

text \<open>
  C8 as stated fails: in the race the response for page 2 is applied although page 1 was
  asked for after it. While \<open>currentPage\<close> is 1 the visible page holds the ids 13 to 24, and
  the auto-select effect has run on them: with a bulk request for 15 rows it has selected
  the ids 13, 14 and 15 from the stale page.
\<close>

theorem stale_response_is_applied:
  "currentPage stale_page2 = 1
   \<and> currentPageItemIds stale_page2 = [13, 14, 15, 16, 17, 18, 19, 20, 21, 22, 23, 24]
   \<and> selectedItems target15_page1 = {|1, 2, 3, 4, 5, 6, 7, 8, 9, 10, 11, 12|}
   \<and> selectedItems stale_page2 = {|1, 2, 3, 4, 5, 6, 7, 8, 9, 10, 11, 12, 13, 14, 15|}"
  by code_simp

end
